theory Spec2Isabelle
  imports Main
begin

section \<open>JavaScript values and the object store\<close>

text \<open>
  The library (\<^verbatim>\<open>src/ember-rest.js\<close>) works on JavaScript values. Primitive values are
  modelled directly; arrays and plain objects live in a store and are referred to by
  address, so that two properties holding the same array are visibly the same array.
  Numbers are the integers (no fractions, no NaN); a function value is identified by a name.

  An object cell is the list of its own enumerable properties in enumeration order, with
  distinct keys. An array cell holds its elements and, next to them, the named properties
  that were assigned to the array object.
\<close>

type_synonym addr = nat

datatype jsval =
    Undefined
  | Null
  | Bool bool
  | Num int
  | Str string
  | Fun string
  | Ref addr

datatype cell =
    ArrCell "jsval list" "(string \<times> jsval) list"
  | ObjCell "(string \<times> jsval) list"

type_synonym heap = "cell list"

definition deref :: "heap \<Rightarrow> addr \<Rightarrow> cell option" where
  "deref h a = (if a < length h then Some (h ! a) else None)"

text \<open>A literal \<^verbatim>\<open>{}\<close>, \<^verbatim>\<open>[]\<close> or a library call that builds an object takes the next address.\<close>

definition alloc :: "heap \<Rightarrow> cell \<Rightarrow> jsval \<times> heap" where
  "alloc h c = (Ref (length h), h @ [c])"

text \<open>
  \<^verbatim>\<open>obj[k] = v\<close>: an existing key keeps its place, a new key goes last. (JavaScript
  enumerates the keys that are array indices first; the model assigns no such key to an
  object.)
\<close>

fun put :: "(string \<times> jsval) list \<Rightarrow> string \<Rightarrow> jsval \<Rightarrow> (string \<times> jsval) list" where
  "put [] k v = [(k, v)]"
| "put ((k', v') # kvs) k v = (if k' = k then (k, v) # kvs else (k', v') # put kvs k v)"

text \<open>\<^verbatim>\<open>if (x)\<close>: the falsy values are undefined, null, false, 0 and the empty string.\<close>

fun truthy :: "jsval \<Rightarrow> bool" where
  "truthy Undefined = False"
| "truthy Null = False"
| "truthy (Bool b) = b"
| "truthy (Num n) = (n \<noteq> 0)"
| "truthy (Str s) = (s \<noteq> [])"
| "truthy (Fun f) = True"
| "truthy (Ref a) = True"

text \<open>\<^verbatim>\<open>typeof x === "function"\<close>\<close>

fun is_function :: "jsval \<Rightarrow> bool" where
  "is_function (Fun f) = True"
| "is_function v = False"

text \<open>Decimal digits of a natural number, as \<^verbatim>\<open>String(n)\<close> prints them.\<close>

fun digits :: "nat \<Rightarrow> string" where
  "digits n =
     (if n < 10 then [''0123456789'' ! n]
      else digits (n div 10) @ [''0123456789'' ! (n mod 10)])"

declare digits.simps [simp del]

text \<open>
  What lies outside the source file and is not modelled in detail: the built-in
  \<^verbatim>\<open>toString\<close> of arrays, objects and functions, the way a number beyond the exactly
  represented integers is printed (rounded, and in exponent notation from 22 digits on),
  the conversion of strings, objects and functions to a number (\<open>None\<close> for NaN), the declared number of parameters of a function,
  \<^verbatim>\<open>JSON.stringify\<close>, and \<^verbatim>\<open>JSON.parse\<close> (\<open>None\<close> when it throws; otherwise the
  parsed value and the store holding it).
\<close>

record runtime =
  object_toString :: "heap \<Rightarrow> jsval \<Rightarrow> string"
  number_toString :: "int \<Rightarrow> string"
  object_toNumber :: "heap \<Rightarrow> jsval \<Rightarrow> int option"
  function_length :: "string \<Rightarrow> nat"
  JSON_stringify :: "heap \<Rightarrow> jsval \<Rightarrow> string"
  JSON_parse :: "string \<Rightarrow> heap \<Rightarrow> (jsval \<times> heap) option"



text \<open>\<^verbatim>\<open>v[k]\<close> on a plain object of the store; undefined when the key is absent.\<close>

definition js_prop :: "heap \<Rightarrow> jsval \<Rightarrow> string \<Rightarrow> jsval" where
  "js_prop h v k =
     (case v of
        Ref a \<Rightarrow>
          (case deref h a of
             Some (ObjCell kvs) \<Rightarrow> (case map_of kvs k of Some x \<Rightarrow> x | None \<Rightarrow> Undefined)
           | Some (ArrCell xs ps) \<Rightarrow> (case map_of ps k of Some x \<Rightarrow> x | None \<Rightarrow> Undefined)
           | None \<Rightarrow> Undefined)
      | _ \<Rightarrow> Undefined)"



text \<open>
  The keys a \<^verbatim>\<open>for (prop in json)\<close> loop guarded by \<^verbatim>\<open>json.hasOwnProperty(prop)\<close>
  visits, each with \<^verbatim>\<open>json[prop]\<close>: the own properties of an object, the indices and
  then the named properties of an array, the indices of a string, nothing for the other
  primitives.
\<close>

definition own_properties :: "heap \<Rightarrow> jsval \<Rightarrow> (string \<times> jsval) list" where
  "own_properties h v =
     (case v of
        Ref a \<Rightarrow>
          (case deref h a of
             Some (ObjCell kvs) \<Rightarrow> kvs
           | Some (ArrCell xs ps) \<Rightarrow> zip (map digits [0..<length xs]) xs @ ps
           | None \<Rightarrow> [])
      | Str s \<Rightarrow> zip (map digits [0..<length s]) (map (\<lambda>c. Str [c]) s)
      | _ \<Rightarrow> [])"

section \<open>Requests, events and the world\<close>

text \<open>The parameter bag handed to \<^verbatim>\<open>jQuery.ajax\<close>; \<open>http_type\<close> is \<^verbatim>\<open>params.type\<close>.\<close>

record params =
  url :: "string option"
  http_type :: string
  dataType :: "string option"
  contentType :: "string option"
  data :: jsval

text \<open>
  What the code does to the outside: the change scope it opens and closes on an object,
  the request it hands to the transport, the call of the \<^verbatim>\<open>_postResourceRequest\<close> hook,
  and the teardown of a resource (with the properties it held).
\<close>

datatype event =
    BeginPropertyChanges
  | EndPropertyChanges
  | Ajax params
  | PostResourceRequest
  | Destroy "(string \<times> jsval) list"

record world =
  heap :: heap
  trace :: "event list"

definition emit :: "event \<Rightarrow> world \<Rightarrow> world" where
  "emit e w = w\<lparr>trace := trace w @ [e]\<rparr>"


text \<open>
  A value that is thrown, or that a promise is rejected with: a JavaScript value, the
  response object of the transport (jqXHR), a TypeError raised by the runtime, or the
  error the framework raises when \<^verbatim>\<open>set\<close> cannot follow a path. A value given as
  \<open>Value v\<close> is not a response object: it has neither a \<^verbatim>\<open>responseJSON\<close> nor a
  \<^verbatim>\<open>getAllResponseHeaders\<close> member.
\<close>

record xhr =
  responseJSON :: jsval
  status :: int
  getAllResponseHeaders :: string
  responseText :: string

datatype errval = Value jsval | Response xhr | TypeError | EmberError

datatype 'a outcome = Resolved 'a | Rejected errval

text \<open>What the transport answers: the success callback with the data, or a rejection.\<close>

datatype reply = Success jsval | Failure errval

text \<open>
  What a call does: it returns a value, it throws, or it leaves the part of JavaScript and
  of the framework that is modelled here (\<open>Unmodelled\<close>: nothing is said about it).
\<close>

datatype 'a result = Ok 'a | Throw errval | Unmodelled

definition and_then :: "'a result \<Rightarrow> ('a \<Rightarrow> 'b result) \<Rightarrow> 'b result" where
  "and_then m f = (case m of Ok x \<Rightarrow> f x | Throw e \<Rightarrow> Throw e | Unmodelled \<Rightarrow> Unmodelled)"

section \<open>Ember.ajaxPromise\<close>

text \<open>A string parameter counts as set when it is neither undefined nor empty.\<close>

definition unset :: "string option \<Rightarrow> bool" where
  "unset s = (case s of None \<Rightarrow> True | Some t \<Rightarrow> t = [])"

text \<open>\<^verbatim>\<open>headers.indexOf(sub) !== -1\<close>\<close>

fun contains :: "string \<Rightarrow> string \<Rightarrow> bool" where
  "contains [] sub = (sub = [])"
| "contains (c # cs) sub = (take (length sub) (c # cs) = sub \<or> contains cs sub)"

text \<open>
  \<^verbatim>\<open>error.status = err.status\<close>: a property write on an object or an array; on null and
  undefined it raises a TypeError (\<open>None\<close>); on any other primitive it is dropped.
\<close>

definition attach_status :: "heap \<Rightarrow> jsval \<Rightarrow> int \<Rightarrow> heap option" where
  "attach_status h error st =
     (case error of
        Undefined \<Rightarrow> None
      | Null \<Rightarrow> None
      | Ref a \<Rightarrow>
          (case deref h a of
             Some (ObjCell kvs) \<Rightarrow> Some (h[a := ObjCell (put kvs ''status'' (Num st))])
           | Some (ArrCell xs ps) \<Rightarrow> Some (h[a := ArrCell xs (put ps ''status'' (Num st))])
           | None \<Rightarrow> Some h)
      | _ \<Rightarrow> Some h)"

definition with_status :: "heap \<Rightarrow> jsval \<Rightarrow> int \<Rightarrow> errval \<times> heap" where
  "with_status h error st =
     (case attach_status h error st of
        None \<Rightarrow> (TypeError, h)
      | Some h' \<Rightarrow> (Value error, h'))"

text \<open>The \<^verbatim>\<open>catch\<close> handler of \<^verbatim>\<open>Ember.ajaxPromise\<close>: the value it throws on.\<close>

definition normalize :: "runtime \<Rightarrow> errval \<Rightarrow> heap \<Rightarrow> errval \<times> heap" where
  "normalize rt err h =
     (case err of
        Response x \<Rightarrow>
          (if truthy (responseJSON x) then with_status h (responseJSON x) (status x)
           else if contains (getAllResponseHeaders x) ''Content-Type: application/json'' then
             (case JSON_parse rt (responseText x) h of
                Some (error, h') \<Rightarrow> with_status h' error (status x)
              | None \<Rightarrow> (let (error, h') = alloc h (ObjCell []) in with_status h' error (status x)))
           else (let (error, h') = alloc h (ObjCell []) in with_status h' error (status x)))
      | Value v \<Rightarrow>
          (case v of
             Undefined \<Rightarrow> (TypeError, h)
           | Null \<Rightarrow> (TypeError, h)
           | _ \<Rightarrow> (Value v, h))
      | TypeError \<Rightarrow> (TypeError, h)
      | EmberError \<Rightarrow> (EmberError, h))"

definition ajax_defaults :: "params \<Rightarrow> params" where
  "ajax_defaults p =
     (let p1 = (if unset (contentType p) then p\<lparr>contentType := Some ''application/json''\<rparr> else p)
      in if unset (dataType p1) then p1\<lparr>dataType := Some ''json''\<rparr> else p1)"

text \<open>
  \<open>nativeAjaxMethod\<close> says whether the caller has a \<^verbatim>\<open>_postResourceRequest\<close> method;
  \<open>rep\<close> is what the transport answers to the request.
\<close>

definition ajaxPromise :: "runtime \<Rightarrow> params \<Rightarrow> bool \<Rightarrow> reply \<Rightarrow> world \<Rightarrow> jsval outcome \<times> world" where
  "ajaxPromise rt p nativeAjaxMethod rep w =
     (let w1 = emit (Ajax (ajax_defaults p)) w;
          w2 = (if nativeAjaxMethod then emit PostResourceRequest w1 else w1)
      in case rep of
           Success d \<Rightarrow> (Resolved d, w2)
         | Failure err \<Rightarrow>
             (let (error, h') = normalize rt err (heap w2) in (Rejected error, w2\<lparr>heap := h'\<rparr>)))"

section \<open>Ember.ResourceAdapter\<close>

text \<open>
  The two optional hooks of the adapter mixin, as a class may define them. A member whose
  name starts with an underscore in the source is written with the prefix \<open>priv\<close> here.
\<close>

record adapter =
  prepareResourceRequest :: "(params \<Rightarrow> params) option"
  postResourceRequest :: bool





section \<open>Ember.Resource\<close>

text \<open>
  A resource type declares the id field, the base URL, the name and the property names
  used for serialization, optionally a \<^verbatim>\<open>validate\<close> hook (which reads the store and the
  properties of the instance), the adapter hooks, and the names of the further
  function-valued members of its instances. An instance holds the properties assigned to
  it.
\<close>

record resource_class =
  resourceIdField :: string
  resourceUrl :: string
  resourceName :: string
  resourceProperties :: "string list"
  validate :: "(heap \<Rightarrow> (string \<times> jsval) list \<Rightarrow> jsval) option"
  adapter :: adapter
  methods :: "string list"

record resource =
  cls :: resource_class
  props :: "(string \<times> jsval) list"

text \<open>\<^verbatim>\<open>Ember.Resource.extend({resourceUrl: .., resourceName: .., resourceProperties: ..})\<close>\<close>

definition Resource_extend :: "string \<Rightarrow> string \<Rightarrow> string list \<Rightarrow> resource_class" where
  "Resource_extend u n ps =
     \<lparr>resourceIdField = ''id'', resourceUrl = u, resourceName = n, resourceProperties = ps,
      validate = None,
      adapter = \<lparr>prepareResourceRequest = None, postResourceRequest = False\<rparr>,
      methods = []\<rparr>"

definition create :: "resource_class \<Rightarrow> resource" where
  "create c = \<lparr>cls = c, props = []\<rparr>"

text \<open>
  The function-valued members every instance of the type has: the methods of the source
  file, the members of the framework that the source file calls, the hooks the type
  defines, and the further methods the type names.
\<close>

definition method_names :: "resource_class \<Rightarrow> string list" where
  "method_names c =
     [''_resourceRequest'', ''duplicateProperties'', ''copy'', ''serialize'',
      ''serializeProperty'', ''deserialize'', ''deserializeProperty'', ''findResource'',
      ''saveResource'', ''destroyResource'', ''isNew'', ''_resourceUrl'', ''_resourceId'',
      ''get'', ''set'', ''destroy'', ''constructor'']
     @ (if validate c = None then [] else [''validate''])
     @ (if prepareResourceRequest (adapter c) = None then [] else [''_prepareResourceRequest''])
     @ (if postResourceRequest (adapter c) then [''_postResourceRequest''] else [])
     @ methods c"

text \<open>
  \<^verbatim>\<open>this[k]\<close>: a property assigned to the instance comes first and hides what the type
  gives: a method, or one of the three strings of the configuration. The property list of
  the type is not a value of the store (\<open>None\<close>). Any other name is undefined.
\<close>

definition member :: "resource \<Rightarrow> string \<Rightarrow> jsval option" where
  "member r k =
     (case map_of (props r) k of
        Some v \<Rightarrow> Some v
      | None \<Rightarrow>
          if k \<in> set (method_names (cls r)) then Some (Fun k)
          else if k = ''resourceIdField'' then Some (Str (resourceIdField (cls r)))
          else if k = ''resourceUrl'' then Some (Str (resourceUrl (cls r)))
          else if k = ''resourceName'' then Some (Str (resourceName (cls r)))
          else if k = ''resourceProperties'' then None
          else Some Undefined)"

text \<open>
  A call \<^verbatim>\<open>this.k(..)\<close> of a method of the library. It reaches the method when no
  property of that name has been assigned to the instance. An assigned value that is not a
  function makes the call a TypeError; an assigned function is not followed.
\<close>

definition dispatch :: "resource \<Rightarrow> string \<Rightarrow> unit result" where
  "dispatch r k =
     (case map_of (props r) k of
        None \<Rightarrow> if k \<in> set (method_names (cls r)) then Ok () else Throw TypeError
      | Some v \<Rightarrow> if is_function v then Unmodelled else Throw TypeError)"

text \<open>
  The configuration as the code reads it, on the instance: \<^verbatim>\<open>this.resourceIdField\<close>,
  \<^verbatim>\<open>this.resourceUrl\<close>, \<^verbatim>\<open>this.resourceName\<close>, \<^verbatim>\<open>this.resourceProperties\<close>. An
  assigned string replaces the string of the type; any other assigned value is not
  followed.
\<close>

definition assigned_string :: "resource \<Rightarrow> string \<Rightarrow> string \<Rightarrow> string result" where
  "assigned_string r k dflt =
     (case map_of (props r) k of
        None \<Rightarrow> Ok dflt
      | Some (Str s) \<Rightarrow> Ok s
      | Some v \<Rightarrow> Unmodelled)"



definition this_resourceName :: "resource \<Rightarrow> string result" where
  "this_resourceName r = assigned_string r ''resourceName'' (resourceName (cls r))"

definition this_resourceProperties :: "resource \<Rightarrow> string list result" where
  "this_resourceProperties r =
     (case map_of (props r) ''resourceProperties'' of
        None \<Rightarrow> Ok (resourceProperties (cls r))
      | Some v \<Rightarrow> Unmodelled)"




subsection \<open>get and set\<close>

text \<open>
  \<^verbatim>\<open>this.get(k)\<close> and \<^verbatim>\<open>this.set(k, v)\<close> read and write the member named \<open>k\<close> when
  \<open>k\<close> is a plain name: not empty, without a dot, not a sequence of digits (an array
  index), and not the name of a member that the framework or JavaScript gives every
  object, other than the members listed with the methods above. Nothing is said about the
  other names.

  A key with a dot is a path. \<^verbatim>\<open>set\<close> follows it from the instance and raises an error
  when the first part of the path names nothing (undefined or null); this is modelled for
  a first part in lower-case letters and underscores that does not start with \<open>this\<close>.
  Where a path leads to is not followed.
\<close>

definition framework_names :: "string list" where
  "framework_names =
     [''__proto__'', ''__ember_meta__'', ''__defineGetter__'', ''__defineSetter__'',
      ''__lookupGetter__'', ''__lookupSetter__'', ''hasOwnProperty'', ''isPrototypeOf'',
      ''propertyIsEnumerable'', ''toLocaleString'', ''toString'', ''valueOf'',
      ''init'', ''isInstance'', ''isDestroyed'', ''isDestroying'', ''willDestroy'',
      ''concatenatedProperties'', ''unknownProperty'', ''setUnknownProperty'',
      ''getProperties'', ''setProperties'', ''getWithDefault'', ''beginPropertyChanges'',
      ''endPropertyChanges'', ''propertyWillChange'', ''propertyDidChange'',
      ''notifyPropertyChange'', ''addObserver'', ''removeObserver'', ''addBeforeObserver'',
      ''hasObserverFor'', ''observersForKey'', ''incrementProperty'', ''decrementProperty'',
      ''toggleProperty'', ''cacheFor'', ''frozenCopy'', ''_super'']"

definition plain_name :: "string \<Rightarrow> bool" where
  "plain_name k =
     (k \<noteq> [] \<and> CHR ''.'' \<notin> set k \<and> \<not> list_all (\<lambda>c. c \<in> set ''0123456789'') k \<and>
      k \<notin> set framework_names)"

definition simple_part :: "string \<Rightarrow> bool" where
  "simple_part k =
     (plain_name k \<and> set k \<subseteq> set ''abcdefghijklmnopqrstuvwxyz_'' \<and> take 4 k \<noteq> ''this'')"

definition Ember_get :: "resource \<Rightarrow> string \<Rightarrow> jsval result" where
  "Ember_get r k =
     (if plain_name k then (case member r k of Some v \<Rightarrow> Ok v | None \<Rightarrow> Unmodelled)
      else Unmodelled)"

definition Ember_set :: "resource \<Rightarrow> string \<Rightarrow> jsval \<Rightarrow> resource result" where
  "Ember_set r k v =
     (if plain_name k then Ok (r\<lparr>props := put (props r) k v\<rparr>)
      else if CHR ''.'' \<in> set k \<and> simple_part (takeWhile (\<lambda>c. c \<noteq> CHR ''.'') k) then
        (case member r (takeWhile (\<lambda>c. c \<noteq> CHR ''.'') k) of
           Some Undefined \<Rightarrow> Throw EmberError
         | Some Null \<Rightarrow> Throw EmberError
         | _ \<Rightarrow> Unmodelled)
      else Unmodelled)"

subsection \<open>duplicateProperties and copy\<close>






subsection \<open>serialize and deserialize\<close>

definition serializeProperty :: "resource \<Rightarrow> string \<Rightarrow> jsval result" where
  "serializeProperty this prop = and_then (dispatch this ''get'') (\<lambda>u. Ember_get this prop)"

fun serialize_loop ::
  "resource \<Rightarrow> string list \<Rightarrow> (string \<times> jsval) list \<Rightarrow> unit result \<times> (string \<times> jsval) list" where
  "serialize_loop this [] obj = (Ok (), obj)"
| "serialize_loop this (prop # ps) obj =
     (case and_then (dispatch this ''serializeProperty'') (\<lambda>u. serializeProperty this prop) of
        Ok v \<Rightarrow> serialize_loop this ps (put obj prop v)
      | Throw e \<Rightarrow> (Throw e, obj)
      | Unmodelled \<Rightarrow> (Unmodelled, obj))"

text \<open>
  \<^verbatim>\<open>ret = {}\<close> takes the first new address and \<^verbatim>\<open>ret[name] = {}\<close> the second; the loop
  fills the second object, as far as it gets.
\<close>

definition serialize :: "resource \<Rightarrow> heap \<Rightarrow> jsval result \<times> heap" where
  "serialize this h =
     (case and_then (this_resourceName this)
             (\<lambda>name. and_then (this_resourceProperties this) (\<lambda>ps. Ok (name, ps))) of
        Ok (name, ps) \<Rightarrow>
          (if name \<noteq> ''__proto__'' then
             (let a = length h;
                  (res, obj) = serialize_loop this ps [];
                  h' = h @ [ObjCell [(name, Ref (Suc a))], ObjCell obj]
              in (and_then res (\<lambda>u. Ok (Ref a)), h'))
           else (Unmodelled, h))
      | Throw e \<Rightarrow> (Throw e, h)
      | Unmodelled \<Rightarrow> (Unmodelled, h))"

text \<open>The test reads \<^verbatim>\<open>this.prop\<close>: the member named \<open>prop\<close>, whatever the key is.\<close>

definition deserializeProperty :: "resource \<Rightarrow> string \<Rightarrow> jsval \<Rightarrow> resource result" where
  "deserializeProperty this prop value =
     (case member this ''prop'' of
        Some p \<Rightarrow>
          if \<not> is_function p then and_then (dispatch this ''set'') (\<lambda>u. Ember_set this prop value)
          else Ok this
      | None \<Rightarrow> Unmodelled)"

fun deserialize_loop :: "resource \<Rightarrow> (string \<times> jsval) list \<Rightarrow> unit result \<times> resource" where
  "deserialize_loop this [] = (Ok (), this)"
| "deserialize_loop this ((prop, value) # rest) =
     (case and_then (dispatch this ''deserializeProperty'')
             (\<lambda>u. deserializeProperty this prop value) of
        Ok this' \<Rightarrow> deserialize_loop this' rest
      | Throw e \<Rightarrow> (Throw e, this)
      | Unmodelled \<Rightarrow> (Unmodelled, this))"

text \<open>
  \<^verbatim>\<open>json.hasOwnProperty(prop)\<close> is a call on \<open>json\<close>: a property of that name in
  \<open>json\<close> itself takes the place of the built-in test.
\<close>

definition hasOwnProperty_call :: "(string \<times> jsval) list \<Rightarrow> unit result" where
  "hasOwnProperty_call kvs =
     (case map_of kvs ''hasOwnProperty'' of
        None \<Rightarrow> Ok ()
      | Some v \<Rightarrow> if is_function v then Unmodelled else Throw TypeError)"

text \<open>
  When a call in the loop throws, the change scope stays open: \<^verbatim>\<open>endPropertyChanges\<close>
  is not reached.
\<close>

definition deserialize :: "resource \<Rightarrow> jsval \<Rightarrow> world \<Rightarrow> unit result \<times> resource \<times> world" where
  "deserialize this json w =
     (let w1 = emit BeginPropertyChanges w;
          kvs = own_properties (heap w1) json
      in case hasOwnProperty_call kvs of
           Ok u \<Rightarrow>
             (case deserialize_loop this kvs of
                (Ok u, this') \<Rightarrow> (Ok (), this', emit EndPropertyChanges w1)
              | (Throw e, this') \<Rightarrow> (Throw e, this', w1)
              | (Unmodelled, this') \<Rightarrow> (Unmodelled, this', w1))
         | Throw e \<Rightarrow> (Throw e, this, w1)
         | Unmodelled \<Rightarrow> (Unmodelled, this, w1))"

subsection \<open>Identity and URL\<close>





subsection \<open>find, save, destroy\<close>







section \<open>Ember.ResourceController\<close>












section \<open>Vocabulary of the claims\<close>

text \<open>
  The members that the source file calls or reads on a resource, other than the three
  strings of the configuration. A resource is intact when no property has been assigned
  to it under one of these names: its calls then reach the methods of the library.
\<close>

definition library_members :: "string list" where
  "library_members =
     [''get'', ''set'', ''constructor'', ''destroy'', ''_resourceRequest'', ''_resourceUrl'',
      ''_resourceId'', ''_prepareResourceRequest'', ''_postResourceRequest'', ''validate'',
      ''isNew'', ''serialize'', ''serializeProperty'', ''deserialize'', ''deserializeProperty'',
      ''duplicateProperties'', ''resourceProperties'']"

definition intact :: "resource \<Rightarrow> bool" where
  "intact r = list_all (\<lambda>k. map_of (props r) k = None) library_members"

text \<open>
  A key that \<^verbatim>\<open>deserialize\<close> can assign without leaving the plain case: a plain name
  that is not the name of a member the loop itself calls.
\<close>

definition assignable :: "string \<Rightarrow> bool" where
  "assignable k =
     (plain_name k \<and> k \<notin> set [''deserializeProperty'', ''set'', ''hasOwnProperty''])"


section \<open>Example inputs\<close>

text \<open>
  A runtime for the examples: objects print as \<^verbatim>\<open>[object Object]\<close>, the one large
  number of the examples prints as \<^verbatim>\<open>1e+21\<close>, every body is written as \<^verbatim>\<open>{}\<close>,
  and the parser knows one text.
\<close>

definition bad_text :: string where
  \<open>bad_text = ''{"message":"bad"}''\<close>

definition plain_runtime :: runtime where
  "plain_runtime =
     \<lparr>object_toString = (\<lambda>h v. ''[object Object]''),
      number_toString = (\<lambda>n. ''1e+21''),
      object_toNumber = (\<lambda>h v. None),
      function_length = (\<lambda>f. 0),
      JSON_stringify = (\<lambda>h v. ''{}''),
      JSON_parse = (\<lambda>s h. if s = bad_text
                            then Some (alloc h (ObjCell [(''message'', Str ''bad'')]))
                            else None)\<rparr>"

definition empty_world :: world where
  "empty_world = \<lparr>heap = [], trace = []\<rparr>"

text \<open>
  A contact type, with a validation hook, with a method \<open>fullName\<close>, with a method
  \<open>prop\<close>. Contacts: without an id, with the id 7, with a base URL of its own, with an id
  field of its own, with an id of 22 digits, and one of the validated type. A store holding
  the answer of the server to a creation, and one whose answer has a key with a dot.
\<close>

definition Contact :: resource_class where
  "Contact = Resource_extend ''/contacts'' ''contact'' [''first'', ''last'']"


definition Named_Contact :: resource_class where
  "Named_Contact = Contact\<lparr>methods := [''fullName'']\<rparr>"

definition Prop_Contact :: resource_class where
  "Prop_Contact = Contact\<lparr>methods := [''prop'']\<rparr>"

definition Ann :: resource where
  "Ann = \<lparr>cls = Contact, props = [(''first'', Str ''Ann'')]\<rparr>"











text \<open>
  Failed responses: an HTML page; a JSON body the transport has parsed already (into the
  object of \<open>unprocessable_world\<close>); the same body not parsed yet; a JSON content type
  with a body that does not parse.
\<close>

definition html_error :: xhr where
  "html_error =
     \<lparr>responseJSON = Undefined, status = 500,
      getAllResponseHeaders = ''Content-Type: text/html'', responseText = ''<html>''\<rparr>"

definition unprocessable :: xhr where
  "unprocessable =
     \<lparr>responseJSON = Ref 0, status = 422,
      getAllResponseHeaders = ''Content-Type: application/json'', responseText = bad_text\<rparr>"

definition unprocessable_world :: world where
  "unprocessable_world = \<lparr>heap = [ObjCell [(''message'', Str ''bad'')]], trace = []\<rparr>"

definition unread :: xhr where
  "unread =
     \<lparr>responseJSON = Undefined, status = 422,
      getAllResponseHeaders = ''Content-Type: application/json'', responseText = bad_text\<rparr>"

definition garbled :: xhr where
  "garbled =
     \<lparr>responseJSON = Undefined, status = 502,
      getAllResponseHeaders = ''Content-Type: application/json'', responseText = ''<oops''\<rparr>"

definition get_params :: params where
  "get_params =
     \<lparr>url = Some ''/contacts'', http_type = ''GET'', dataType = None, contentType = None,
      data = Undefined\<rparr>"








section \<open>Facts about the model\<close>

lemma and_then_simps [simp]:
  "and_then (Ok x) f = f x"
  "and_then (Throw e) f = Throw e"
  "and_then Unmodelled f = Unmodelled"
  by (simp_all add: and_then_def)

lemma and_then_Ok_iff: "and_then m f = Ok y \<longleftrightarrow> (\<exists>x. m = Ok x \<and> f x = Ok y)"
  by (cases m) simp_all

lemma dispatch_Ok: "map_of (props r) k = None \<Longrightarrow> k \<in> set (method_names (cls r)) \<Longrightarrow> dispatch r k = Ok ()"
  by (simp add: dispatch_def)

lemma dispatch_Ok_iff:
  "dispatch r k = Ok u \<longleftrightarrow> map_of (props r) k = None \<and> k \<in> set (method_names (cls r))"
  by (simp add: dispatch_def split: option.splits)




lemma intact_create: "intact (create c)"
  by (simp add: intact_def create_def library_members_def)






lemma fst_ajaxPromise_Failure: "\<exists>e. fst (ajaxPromise rt p n (Failure err) w) = Rejected e"
  by (simp add: ajaxPromise_def Let_def case_prod_unfold)























lemma fst_deserialize:
  "fst (deserialize r json w) =
     and_then (hasOwnProperty_call (own_properties (heap w) json))
       (\<lambda>u. fst (deserialize_loop r (own_properties (heap w) json)))"
  by (cases "hasOwnProperty_call (own_properties (heap w) json)";
      cases "deserialize_loop r (own_properties (heap w) json)";
      cases "fst (deserialize_loop r (own_properties (heap w) json))")
     (simp_all add: deserialize_def emit_def Let_def)

lemma this_deserialize:
  "fst (snd (deserialize r json w)) =
     (case hasOwnProperty_call (own_properties (heap w) json) of
        Ok u \<Rightarrow> snd (deserialize_loop r (own_properties (heap w) json))
      | Throw e \<Rightarrow> r
      | Unmodelled \<Rightarrow> r)"
  by (cases "hasOwnProperty_call (own_properties (heap w) json)";
      cases "deserialize_loop r (own_properties (heap w) json)";
      cases "fst (deserialize_loop r (own_properties (heap w) json))")
     (simp_all add: deserialize_def emit_def Let_def)








lemma map_of_put: "map_of (put kvs k v) = (map_of kvs)(k \<mapsto> v)"
  by (induction kvs) (auto simp add: fun_eq_iff)

lemma set_put: "set (put kvs k v) \<subseteq> insert (k, v) (set kvs)"
  by (induction kvs) (auto split: if_splits)

lemma keys_put: "fst ` set (put kvs k v) = insert k (fst ` set kvs)"
proof (induction kvs)
  case Nil
  then show ?case by simp
next
  case (Cons a kvs)
  then show ?case by (cases a) (simp add: insert_commute)
qed

lemma member_not_None: "k \<noteq> ''resourceProperties'' \<Longrightarrow> \<exists>v. member r k = Some v"
  by (simp add: member_def split: option.splits)

lemma deserializeProperty_assignable:
  assumes "map_of (props r) ''set'' = None" and "plain_name k"
  shows "deserializeProperty r k v = Ok r \<or>
         deserializeProperty r k v = Ok (r\<lparr>props := put (props r) k v\<rparr>)"
proof -
  obtain p where p: "member r ''prop'' = Some p"
    using member_not_None [of "''prop''" r] by auto
  have d: "dispatch r ''set'' = Ok ()"
    using assms(1) by (simp add: dispatch_def method_names_def)
  show ?thesis using assms(2) by (simp add: deserializeProperty_def p d Ember_set_def)
qed

lemma deserialize_loop_assignable:
  assumes "map_of (props r) ''deserializeProperty'' = None" and "map_of (props r) ''set'' = None"
    and "\<forall>kv \<in> set kvs. assignable (fst kv)"
  shows "fst (deserialize_loop r kvs) = Ok ()"
  using assms
proof (induction kvs arbitrary: r)
  case Nil
  then show ?case by simp
next
  case (Cons kv kvs)
  obtain k v where kv: "kv = (k, v)" by (cases kv)
  have a: "plain_name k" "k \<noteq> ''deserializeProperty''" "k \<noteq> ''set''"
    using Cons.prems(3) by (simp_all add: kv assignable_def)
  have d: "dispatch r ''deserializeProperty'' = Ok ()"
    using Cons.prems(1) by (simp add: dispatch_def method_names_def)
  from deserializeProperty_assignable [OF Cons.prems(2) a(1), of v]
  show ?case
  proof
    assume e: "deserializeProperty r k v = Ok r"
    show ?thesis using Cons.IH [of r] Cons.prems by (simp add: kv d e)
  next
    assume e: "deserializeProperty r k v = Ok (r\<lparr>props := put (props r) k v\<rparr>)"
    show ?thesis
      using Cons.IH [of "r\<lparr>props := put (props r) k v\<rparr>"] Cons.prems a
      by (simp add: kv d e map_of_put)
  qed
qed

lemma deserialize_assignable:
  assumes "map_of (props r) ''deserializeProperty'' = None" and "map_of (props r) ''set'' = None"
    and "\<forall>kv \<in> set (own_properties (heap w) json). assignable (fst kv)"
  shows "fst (deserialize r json w) = Ok ()"
proof -
  have "''hasOwnProperty'' \<notin> fst ` set (own_properties (heap w) json)"
    using assms(3) by (auto simp add: assignable_def)
  then have "map_of (own_properties (heap w) json) ''hasOwnProperty'' = None"
    by (simp add: map_of_eq_None_iff)
  then have "hasOwnProperty_call (own_properties (heap w) json) = Ok ()"
    by (simp add: hasOwnProperty_call_def)
  then show ?thesis
    using deserialize_loop_assignable [OF assms] by (simp add: fst_deserialize)
qed



lemmas ser_defs = serialize_def this_resourceName_def this_resourceProperties_def
  assigned_string_def serializeProperty_def dispatch_def method_names_def Ember_get_def
  plain_name_def framework_names_def member_def Let_def Contact_def Resource_extend_def

lemma serialize_loop_values:
  "\<forall>kv \<in> set acc. Ember_get r (fst kv) = Ok (snd kv) \<Longrightarrow>
   \<forall>kv \<in> set (snd (serialize_loop r ps acc)). Ember_get r (fst kv) = Ok (snd kv)"
proof (induction ps arbitrary: acc)
  case Nil
  then show ?case by simp
next
  case (Cons p ps)
  show ?case
  proof (cases "and_then (dispatch r ''serializeProperty'') (\<lambda>u. serializeProperty r p)")
    case (Ok v)
    then have g: "Ember_get r p = Ok v"
      by (auto simp add: and_then_Ok_iff serializeProperty_def)
    have "\<forall>kv \<in> set (put acc p v). Ember_get r (fst kv) = Ok (snd kv)"
      using Cons.prems set_put [of acc p v] g by auto
    then show ?thesis using Cons.IH [of "put acc p v"] Ok by simp
  next
    case (Throw e)
    then show ?thesis using Cons.prems by simp
  next
    case Unmodelled
    then show ?thesis using Cons.prems by simp
  qed
qed

lemma serialize_loop_Ok:
  assumes "map_of (props r) ''serializeProperty'' = None" and "map_of (props r) ''get'' = None"
    and "\<forall>p \<in> set ps. plain_name p \<and> p \<noteq> ''resourceProperties''"
  shows "fst (serialize_loop r ps acc) = Ok () \<and>
         fst ` set (snd (serialize_loop r ps acc)) = fst ` set acc \<union> set ps"
  using assms(3)
proof (induction ps arbitrary: acc)
  case Nil
  then show ?case by simp
next
  case (Cons p ps)
  have d: "dispatch r ''serializeProperty'' = Ok ()" "dispatch r ''get'' = Ok ()"
    using assms(1,2) by (simp_all add: dispatch_def method_names_def)
  obtain v where v: "member r p = Some v"
    using Cons.prems member_not_None [of p r] by auto
  have g: "Ember_get r p = Ok v" using Cons.prems v by (simp add: Ember_get_def)
  show ?case
    using Cons.IH [of "put acc p v"] Cons.prems
    by (simp add: d g serializeProperty_def keys_put)
qed

lemma deserializeProperty_Ok:
  "deserializeProperty f k v = Ok f' \<Longrightarrow>
   f' = f \<or> (plain_name k \<and> f' = f\<lparr>props := put (props f) k v\<rparr>)"
  by (auto simp add: deserializeProperty_def Ember_set_def and_then_Ok_iff
        split: option.splits if_splits jsval.splits)

lemma deserialize_loop_other:
  "p \<notin> fst ` set kvs \<Longrightarrow>
   map_of (props (snd (deserialize_loop f kvs))) p = map_of (props f) p \<and>
   cls (snd (deserialize_loop f kvs)) = cls f"
proof (induction kvs arbitrary: f)
  case Nil
  then show ?case by simp
next
  case (Cons kv kvs)
  obtain k v where kv: "kv = (k, v)" by (cases kv)
  show ?case
  proof (cases "and_then (dispatch f ''deserializeProperty'') (\<lambda>u. deserializeProperty f k v)")
    case (Ok f')
    then have "deserializeProperty f k v = Ok f'" by (auto simp add: and_then_Ok_iff)
    then have "f' = f \<or> f' = f\<lparr>props := put (props f) k v\<rparr>"
      using deserializeProperty_Ok by blast
    then have "map_of (props f') p = map_of (props f) p \<and> cls f' = cls f"
      using Cons.prems kv by (auto simp add: map_of_put)
    then show ?thesis using Cons.IH [of f'] Cons.prems Ok kv by simp
  next
    case (Throw e)
    then show ?thesis by (simp add: kv)
  next
    case Unmodelled
    then show ?thesis by (simp add: kv)
  qed
qed

lemma member_put:
  "member (f\<lparr>props := put (props f) k v\<rparr>) p = (if p = k then Some v else member f p)"
  by (auto simp add: member_def map_of_put split: option.splits)

lemma deserialize_loop_assigns:
  assumes "map_of (props f) ''deserializeProperty'' = None" and "map_of (props f) ''set'' = None"
    and "\<forall>kv \<in> set kvs. assignable (fst kv)"
    and "\<forall>kv \<in> set kvs. fst kv = ''prop'' \<longrightarrow> \<not> is_function (snd kv)"
    and "\<exists>q. member f ''prop'' = Some q \<and> \<not> is_function q"
    and "p \<in> fst ` set kvs" and "\<forall>kv \<in> set kvs. fst kv = p \<longrightarrow> snd kv = x"
  shows "map_of (props (snd (deserialize_loop f kvs))) p = Some x"
  using assms
proof (induction kvs arbitrary: f)
  case Nil
  then show ?case by simp
next
  case (Cons kv kvs)
  obtain k v where kv: "kv = (k, v)" by (cases kv)
  let ?f1 = "f\<lparr>props := put (props f) k v\<rparr>"
  have a: "plain_name k" "k \<noteq> ''deserializeProperty''" "k \<noteq> ''set''"
    using Cons.prems(3) by (simp_all add: kv assignable_def)
  have d: "dispatch f ''deserializeProperty'' = Ok ()" "dispatch f ''set'' = Ok ()"
    using Cons.prems(1,2) by (simp_all add: dispatch_def method_names_def)
  have e: "deserializeProperty f k v = Ok ?f1"
    using Cons.prems(5) a(1) by (auto simp add: deserializeProperty_def d Ember_set_def)
  have step: "deserialize_loop f (kv # kvs) = deserialize_loop ?f1 kvs"
    by (simp add: kv d e)
  have m1: "map_of (props ?f1) ''deserializeProperty'' = None" "map_of (props ?f1) ''set'' = None"
    using Cons.prems(1,2) a by (simp_all add: map_of_put)
  have q1: "\<exists>q. member ?f1 ''prop'' = Some q \<and> \<not> is_function q"
    using Cons.prems(4,5) kv by (auto simp add: member_put)
  show ?case
  proof (cases "p \<in> fst ` set kvs")
    case True
    then show ?thesis
      using Cons.IH [OF m1 _ _ q1 True] Cons.prems(3,4,7) step by simp
  next
    case False
    then have "p = k" using Cons.prems(6) kv by simp
    then have "map_of (props ?f1) p = Some x"
      using Cons.prems(7) kv by (simp add: map_of_put)
    then show ?thesis
      using deserialize_loop_other [OF False, of ?f1] step by simp
  qed
qed

lemma serialize_eq:
  assumes "this_resourceName r = Ok name" and "name \<noteq> ''__proto__''"
    and "map_of (props r) ''resourceProperties'' = None"
  shows "serialize r h =
     (and_then (fst (serialize_loop r (resourceProperties (cls r)) [])) (\<lambda>u. Ok (Ref (length h))),
      h @ [ObjCell [(name, Ref (Suc (length h)))],
           ObjCell (snd (serialize_loop r (resourceProperties (cls r)) []))])"
  using assms
  by (simp add: serialize_def this_resourceProperties_def Let_def case_prod_unfold)




















section \<open>The claims\<close>

text \<open>
  Claim C1, as the code has it. \<^verbatim>\<open>serialize\<close> nests the properties under
  \<^verbatim>\<open>resourceName\<close>, and \<^verbatim>\<open>deserialize\<close> reads a flat object: it is the nested
  object of the result of \<^verbatim>\<open>serialize\<close>, deserialized into a new instance of the same
  type, that gives every property of \<^verbatim>\<open>resourceProperties\<close> its original value.

  This is for a resource on which \<^verbatim>\<open>serializeProperty\<close>, \<^verbatim>\<open>get\<close> and
  \<^verbatim>\<open>resourceProperties\<close> have not been assigned, whose name (\<^verbatim>\<open>this.resourceName\<close>) is
  not \<^verbatim>\<open>__proto__\<close>, and whose listed properties are plain names other than
  \<^verbatim>\<open>deserializeProperty\<close>, \<^verbatim>\<open>set\<close>, \<^verbatim>\<open>hasOwnProperty\<close> and
  \<^verbatim>\<open>resourceProperties\<close>: a listed name with a dot makes \<^verbatim>\<open>set\<close> follow a path. The
  type must have no method named \<open>prop\<close>, and the property \<open>prop\<close> of the source, when
  it is listed, must not hold a function (see C2).
\<close>

theorem serialize_inner_deserialize_roundtrip:
  assumes "map_of (props r) ''serializeProperty'' = None \<and> map_of (props r) ''get'' = None \<and>
      map_of (props r) ''resourceProperties'' = None"
    and "this_resourceName r = Ok name \<and> name \<noteq> ''__proto__''"
    and "\<forall>p \<in> set (resourceProperties (cls r)). assignable p \<and> p \<noteq> ''resourceProperties''"
    and "''prop'' \<notin> set (method_names (cls r))"
    and "''prop'' \<in> set (resourceProperties (cls r)) \<longrightarrow>
           (\<forall>x. Ember_get r ''prop'' = Ok x \<longrightarrow> \<not> is_function x)"
  shows "fst (serialize r h) = Ok (Ref (length h)) \<and>
    js_prop (snd (serialize r h)) (Ref (length h)) name = Ref (Suc (length h)) \<and>
    fst (deserialize (create (cls r)) (Ref (Suc (length h)))
           \<lparr>heap = snd (serialize r h), trace = t\<rparr>) = Ok () \<and>
    (\<forall>p \<in> set (resourceProperties (cls r)).
       \<exists>x. Ember_get r p = Ok x \<and>
           Ember_get (fst (snd (deserialize (create (cls r)) (Ref (Suc (length h)))
               \<lparr>heap = snd (serialize r h), trace = t\<rparr>))) p = Ok x)"
proof -
  let ?inner = "snd (serialize_loop r (resourceProperties (cls r)) [])"
  let ?h = "snd (serialize r h)"
  let ?w = "\<lparr>heap = ?h, trace = t\<rparr>"
  let ?f = "create (cls r)"
  have pl: "\<forall>p \<in> set (resourceProperties (cls r)). plain_name p \<and> p \<noteq> ''resourceProperties''"
    using assms(3) by (simp add: assignable_def)
  have lo: "fst (serialize_loop r (resourceProperties (cls r)) []) = Ok ()"
      "fst ` set ?inner = set (resourceProperties (cls r))"
    using serialize_loop_Ok [of r "resourceProperties (cls r)" "[]"] assms(1) pl by simp_all
  have se: "serialize r h =
      (Ok (Ref (length h)), h @ [ObjCell [(name, Ref (Suc (length h)))], ObjCell ?inner])"
    using serialize_eq [of r name h] assms(1,2) lo(1) by simp
  have c1: "fst (serialize r h) = Ok (Ref (length h))" by (simp add: se)
  have c2: "js_prop ?h (Ref (length h)) name = Ref (Suc (length h))"
    by (simp add: se js_prop_def deref_def nth_append)
  have own: "own_properties ?h (Ref (Suc (length h))) = ?inner"
    by (simp add: se own_properties_def deref_def nth_append)
  have as: "\<forall>kv \<in> set ?inner. assignable (fst kv)"
    using lo(2) assms(3) by force
  have fm: "map_of (props ?f) ''deserializeProperty'' = None" "map_of (props ?f) ''set'' = None"
    by (simp_all add: create_def)
  have c3: "fst (deserialize ?f (Ref (Suc (length h))) ?w) = Ok ()"
    using deserialize_assignable [OF fm, of ?w "Ref (Suc (length h))"] as own by simp
  have ho: "hasOwnProperty_call ?inner = Ok ()"
    using c3 by (simp add: fst_deserialize own and_then_Ok_iff)
  have res: "fst (snd (deserialize ?f (Ref (Suc (length h))) ?w)) = snd (deserialize_loop ?f ?inner)"
    by (simp add: this_deserialize own ho)
  have vals: "\<forall>kv \<in> set ?inner. Ember_get r (fst kv) = Ok (snd kv)"
    by (rule serialize_loop_values) simp
  have fresh: "\<exists>q. member ?f ''prop'' = Some q \<and> \<not> is_function q"
    using assms(4) by (simp add: member_def create_def)
  have noprop: "\<forall>kv \<in> set ?inner. fst kv = ''prop'' \<longrightarrow> \<not> is_function (snd kv)"
  proof (intro ballI impI)
    fix kv assume kv: "kv \<in> set ?inner" and k: "fst kv = ''prop''"
    have "''prop'' \<in> fst ` set ?inner" using kv k by force
    then have "''prop'' \<in> set (resourceProperties (cls r))" by (simp add: lo(2))
    then show "\<not> is_function (snd kv)" using assms(5) vals kv k by auto
  qed
  have c4: "\<exists>x. Ember_get r p = Ok x \<and>
           Ember_get (fst (snd (deserialize ?f (Ref (Suc (length h))) ?w))) p = Ok x"
    if p: "p \<in> set (resourceProperties (cls r))" for p
  proof -
    have keys: "p \<in> fst ` set ?inner" using p by (simp add: lo(2))
    then obtain x where x: "(p, x) \<in> set ?inner" by force
    have gx: "Ember_get r p = Ok x" using vals x by force
    have same: "\<forall>kv \<in> set ?inner. fst kv = p \<longrightarrow> snd kv = x"
      using vals gx by force
    have "map_of (props (snd (deserialize_loop ?f ?inner))) p = Some x"
      by (rule deserialize_loop_assigns [OF fm as noprop fresh keys same])
    then have "Ember_get (snd (deserialize_loop ?f ?inner)) p = Ok x"
      using pl p by (simp add: Ember_get_def member_def)
    then show ?thesis using gx res by simp
  qed
  show ?thesis using c1 c2 c3 c4 by blast
qed

theorem serialize_inner_deserialize_roundtrip_witness:
  "this_resourceName Ann = Ok ''contact'' \<and>
   resourceProperties (cls Ann) = [''first'', ''last''] \<and>
   ''prop'' \<notin> set (method_names (cls Ann)) \<and>
   fst (serialize Ann []) = Ok (Ref 0) \<and>
   js_prop (snd (serialize Ann [])) (Ref 0) ''contact'' = Ref 1 \<and>
   fst (deserialize (create (cls Ann)) (Ref 1) \<lparr>heap = snd (serialize Ann []), trace = []\<rparr>) = Ok () \<and>
   Ember_get (fst (snd (deserialize (create (cls Ann)) (Ref 1)
        \<lparr>heap = snd (serialize Ann []), trace = []\<rparr>))) ''first'' = Ok (Str ''Ann'') \<and>
   Ember_get (fst (snd (deserialize (create (cls Ann)) (Ref 1)
        \<lparr>heap = snd (serialize Ann []), trace = []\<rparr>))) ''last'' = Ok Undefined"
proof -
  have a1: "map_of (props Ann) ''serializeProperty'' = None \<and> map_of (props Ann) ''get'' = None \<and>
      map_of (props Ann) ''resourceProperties'' = None"
    by (simp add: Ann_def)
  have a2: "this_resourceName Ann = Ok ''contact'' \<and> ''contact'' \<noteq> ''__proto__''"
    by (simp add: this_resourceName_def assigned_string_def Ann_def Contact_def Resource_extend_def)
  have ps: "resourceProperties (cls Ann) = [''first'', ''last'']"
    by (simp add: Ann_def Contact_def Resource_extend_def)
  have a3: "\<forall>p \<in> set (resourceProperties (cls Ann)). assignable p \<and> p \<noteq> ''resourceProperties''"
    by (simp add: ps assignable_def plain_name_def framework_names_def)
  have a4: "''prop'' \<notin> set (method_names (cls Ann))"
    by (simp add: method_names_def Ann_def Contact_def Resource_extend_def)
  have a5: "''prop'' \<in> set (resourceProperties (cls Ann)) \<longrightarrow>
           (\<forall>x. Ember_get Ann ''prop'' = Ok x \<longrightarrow> \<not> is_function x)"
    by (simp add: ps)
  have g1: "Ember_get Ann ''first'' = Ok (Str ''Ann'')" and g2: "Ember_get Ann ''last'' = Ok Undefined"
    by (simp_all add: Ember_get_def plain_name_def framework_names_def member_def method_names_def
          Ann_def Contact_def Resource_extend_def)
  note th = serialize_inner_deserialize_roundtrip [OF a1 a2 a3 a4 a5, of "[]" "[]"]
  have f: "Ember_get (fst (snd (deserialize (create (cls Ann)) (Ref 1)
        \<lparr>heap = snd (serialize Ann []), trace = []\<rparr>))) ''first'' = Ok (Str ''Ann'')"
    using th g1 by (simp add: ps)
  have l: "Ember_get (fst (snd (deserialize (create (cls Ann)) (Ref 1)
        \<lparr>heap = snd (serialize Ann []), trace = []\<rparr>))) ''last'' = Ok Undefined"
    using th g2 by (simp add: ps)
  show ?thesis using th a2 ps a4 f l by simp
qed

text \<open>
  Claim C1 as stated fails: deserializing the result of \<^verbatim>\<open>serialize\<close> itself sets the
  one property \<open>contact\<close> (the resource name) and leaves \<open>first\<close> undefined.
\<close>

theorem serialize_deserialize_nested_counterexample:
  "''first'' \<in> set (resourceProperties (cls Ann)) \<and>
   Ember_get Ann ''first'' = Ok (Str ''Ann'') \<and>
   fst (serialize Ann []) = Ok (Ref 0) \<and>
   fst (deserialize (create (cls Ann)) (Ref 0) \<lparr>heap = snd (serialize Ann []), trace = []\<rparr>) = Ok () \<and>
   Ember_get (fst (snd (deserialize (create (cls Ann)) (Ref 0)
       \<lparr>heap = snd (serialize Ann []), trace = []\<rparr>))) ''first'' = Ok Undefined \<and>
   Ember_get (fst (snd (deserialize (create (cls Ann)) (Ref 0)
       \<lparr>heap = snd (serialize Ann []), trace = []\<rparr>))) ''contact'' = Ok (Ref 1)"
proof -
  have ps: "''first'' \<in> set (resourceProperties (cls Ann))"
    by (simp add: Ann_def Contact_def Resource_extend_def)
  have g1: "Ember_get Ann ''first'' = Ok (Str ''Ann'')"
    by (simp add: Ember_get_def plain_name_def framework_names_def member_def method_names_def
          Ann_def Contact_def Resource_extend_def)
  have s: "serialize Ann [] =
      (Ok (Ref 0), [ObjCell [(''contact'', Ref 1)],
                    ObjCell [(''first'', Str ''Ann''), (''last'', Undefined)]])"
    by (simp add: ser_defs Ann_def)
  have o: "own_properties (heap \<lparr>heap = snd (serialize Ann []), trace = []\<rparr>) (Ref 0) =
      [(''contact'', Ref 1)]"
    by (simp add: s own_properties_def deref_def)
  have dl: "deserialize_loop (create (cls Ann)) [(''contact'', Ref 1)] =
      (Ok (), \<lparr>cls = Contact, props = [(''contact'', Ref 1)]\<rparr>)"
    by (simp add: deserializeProperty_def member_def create_def
          dispatch_def method_names_def Ember_set_def plain_name_def framework_names_def
          Ann_def Contact_def Resource_extend_def)
  have d1: "fst (deserialize (create (cls Ann)) (Ref 0)
       \<lparr>heap = snd (serialize Ann []), trace = []\<rparr>) = Ok ()"
    unfolding fst_deserialize o dl by (simp add: hasOwnProperty_call_def)
  have d2: "fst (snd (deserialize (create (cls Ann)) (Ref 0)
       \<lparr>heap = snd (serialize Ann []), trace = []\<rparr>)) = \<lparr>cls = Contact, props = [(''contact'', Ref 1)]\<rparr>"
    unfolding this_deserialize o dl by (simp add: hasOwnProperty_call_def)
  have e1: "Ember_get \<lparr>cls = Contact, props = [(''contact'', Ref 1)]\<rparr> ''first'' = Ok Undefined"
    and e2: "Ember_get \<lparr>cls = Contact, props = [(''contact'', Ref 1)]\<rparr> ''contact'' = Ok (Ref 1)"
    by (simp_all add: Ember_get_def plain_name_def framework_names_def member_def method_names_def
          Contact_def Resource_extend_def)
  have s1: "fst (serialize Ann []) = Ok (Ref 0)" by (simp add: s)
  have r1: "Ember_get (fst (snd (deserialize (create (cls Ann)) (Ref 0)
       \<lparr>heap = snd (serialize Ann []), trace = []\<rparr>))) ''first'' = Ok Undefined"
    by (simp only: d2 e1)
  have r2: "Ember_get (fst (snd (deserialize (create (cls Ann)) (Ref 0)
       \<lparr>heap = snd (serialize Ann []), trace = []\<rparr>))) ''contact'' = Ok (Ref 1)"
    by (simp only: d2 e2)
  show ?thesis using ps g1 s1 d1 r1 r2 by simp
qed

text \<open>
  Claim C2, at two inputs. The test in \<^verbatim>\<open>deserializeProperty\<close> reads the member
  named \<open>prop\<close>, not the member named by the key. On a type with a method
  \<open>fullName\<close>, the key \<open>fullName\<close> is assigned and replaces the method; on a type with
  a method \<open>prop\<close>, the key \<open>first\<close> is not assigned.
\<close>

theorem deserialize_method_check_reads_prop:
  "member (create Named_Contact) ''fullName'' = Some (Fun ''fullName'') \<and>
   fst (deserialize (create Named_Contact) (Ref 0)
       \<lparr>heap = [ObjCell [(''fullName'', Str ''Bob'')]], trace = []\<rparr>) = Ok () \<and>
   member (fst (snd (deserialize (create Named_Contact) (Ref 0)
       \<lparr>heap = [ObjCell [(''fullName'', Str ''Bob'')]], trace = []\<rparr>))) ''fullName'' = Some (Str ''Bob'') \<and>
   member (create Prop_Contact) ''prop'' = Some (Fun ''prop'') \<and>
   member (create Prop_Contact) ''first'' = Some Undefined \<and>
   fst (deserialize (create Prop_Contact) (Ref 0)
       \<lparr>heap = [ObjCell [(''first'', Str ''Ann'')]], trace = []\<rparr>) = Ok () \<and>
   member (fst (snd (deserialize (create Prop_Contact) (Ref 0)
       \<lparr>heap = [ObjCell [(''first'', Str ''Ann'')]], trace = []\<rparr>))) ''first'' = Some Undefined"
proof -
  have o1: "own_properties (heap \<lparr>heap = [ObjCell [(''fullName'', Str ''Bob'')]], trace = []\<rparr>) (Ref 0) =
      [(''fullName'', Str ''Bob'')]"
    and o2: "own_properties (heap \<lparr>heap = [ObjCell [(''first'', Str ''Ann'')]], trace = []\<rparr>) (Ref 0) =
      [(''first'', Str ''Ann'')]"
    by (simp_all add: own_properties_def deref_def)
  have l1: "deserialize_loop (create Named_Contact) [(''fullName'', Str ''Bob'')] =
      (Ok (), \<lparr>cls = Named_Contact, props = [(''fullName'', Str ''Bob'')]\<rparr>)"
    by (simp add: deserializeProperty_def member_def create_def dispatch_def method_names_def
          Ember_set_def plain_name_def framework_names_def Named_Contact_def Contact_def
          Resource_extend_def)
  have l2: "deserialize_loop (create Prop_Contact) [(''first'', Str ''Ann'')] =
      (Ok (), create Prop_Contact)"
    by (simp add: deserializeProperty_def member_def create_def dispatch_def method_names_def
          Prop_Contact_def Contact_def Resource_extend_def)
  have m: "member (create Named_Contact) ''fullName'' = Some (Fun ''fullName'')"
      "member \<lparr>cls = Named_Contact, props = [(''fullName'', Str ''Bob'')]\<rparr> ''fullName'' = Some (Str ''Bob'')"
      "member (create Prop_Contact) ''prop'' = Some (Fun ''prop'')"
      "member (create Prop_Contact) ''first'' = Some Undefined"
    by (simp_all add: member_def create_def method_names_def Named_Contact_def Prop_Contact_def
          Contact_def Resource_extend_def)
  have d1: "fst (deserialize (create Named_Contact) (Ref 0)
       \<lparr>heap = [ObjCell [(''fullName'', Str ''Bob'')]], trace = []\<rparr>) = Ok ()"
    unfolding fst_deserialize o1 l1 by (simp add: hasOwnProperty_call_def)
  have d2: "fst (snd (deserialize (create Named_Contact) (Ref 0)
       \<lparr>heap = [ObjCell [(''fullName'', Str ''Bob'')]], trace = []\<rparr>)) =
       \<lparr>cls = Named_Contact, props = [(''fullName'', Str ''Bob'')]\<rparr>"
    unfolding this_deserialize o1 l1 by (simp add: hasOwnProperty_call_def)
  have d3: "fst (deserialize (create Prop_Contact) (Ref 0)
       \<lparr>heap = [ObjCell [(''first'', Str ''Ann'')]], trace = []\<rparr>) = Ok ()"
    unfolding fst_deserialize o2 l2 by (simp add: hasOwnProperty_call_def)
  have d4: "fst (snd (deserialize (create Prop_Contact) (Ref 0)
       \<lparr>heap = [ObjCell [(''first'', Str ''Ann'')]], trace = []\<rparr>)) = create Prop_Contact"
    unfolding this_deserialize o2 l2 by (simp add: hasOwnProperty_call_def)
  show ?thesis by (simp add: d1 d2 d3 d4 m)
qed



text \<open>
  Claim C4, as the code has it. For a response object: when it carries a parsed object
  (\<^verbatim>\<open>responseJSON\<close>), the rejection is that object with the status written into it;
  otherwise, when its headers contain \<^verbatim>\<open>Content-Type: application/json\<close>, the rejection
  is the object parsed from the response text with the status written into it, or a new
  object holding only the status when parsing fails; otherwise it is a new object holding
  only the status. An error value that is not a response object (and is neither null nor
  undefined) is passed on as it is.
\<close>

theorem ajax_error_normalization:
  "(responseJSON x = Ref a \<and> deref (heap w) a = Some (ObjCell kvs) \<longrightarrow>
      fst (ajaxPromise rt p n (Failure (Response x)) w) = Rejected (Value (Ref a)) \<and>
      heap (snd (ajaxPromise rt p n (Failure (Response x)) w)) =
        (heap w)[a := ObjCell (put kvs ''status'' (Num (status x)))]) \<and>
   (\<not> truthy (responseJSON x) \<and>
    contains (getAllResponseHeaders x) ''Content-Type: application/json'' \<and>
    JSON_parse rt (responseText x) (heap w) = Some (Ref b, h1) \<and> deref h1 b = Some (ObjCell kvs1) \<longrightarrow>
      fst (ajaxPromise rt p n (Failure (Response x)) w) = Rejected (Value (Ref b)) \<and>
      heap (snd (ajaxPromise rt p n (Failure (Response x)) w)) =
        h1[b := ObjCell (put kvs1 ''status'' (Num (status x)))]) \<and>
   (\<not> truthy (responseJSON x) \<and>
    contains (getAllResponseHeaders x) ''Content-Type: application/json'' \<and>
    JSON_parse rt (responseText x) (heap w) = None \<longrightarrow>
      fst (ajaxPromise rt p n (Failure (Response x)) w) = Rejected (Value (Ref (length (heap w)))) \<and>
      heap (snd (ajaxPromise rt p n (Failure (Response x)) w)) =
        heap w @ [ObjCell [(''status'', Num (status x))]]) \<and>
   (\<not> truthy (responseJSON x) \<and>
    \<not> contains (getAllResponseHeaders x) ''Content-Type: application/json'' \<longrightarrow>
      fst (ajaxPromise rt p n (Failure (Response x)) w) = Rejected (Value (Ref (length (heap w)))) \<and>
      heap (snd (ajaxPromise rt p n (Failure (Response x)) w)) =
        heap w @ [ObjCell [(''status'', Num (status x))]]) \<and>
   (v \<noteq> Undefined \<and> v \<noteq> Null \<longrightarrow>
      fst (ajaxPromise rt p n (Failure (Value v)) w) = Rejected (Value v) \<and>
      heap (snd (ajaxPromise rt p n (Failure (Value v)) w)) = heap w)"
proof (intro conjI impI)
  assume "responseJSON x = Ref a \<and> deref (heap w) a = Some (ObjCell kvs)"
  then have n: "normalize rt (Response x) (heap w) =
      (Value (Ref a), (heap w)[a := ObjCell (put kvs ''status'' (Num (status x)))])"
    by (simp add: normalize_def with_status_def attach_status_def)
  show "fst (ajaxPromise rt p n (Failure (Response x)) w) = Rejected (Value (Ref a))"
    by (simp add: ajaxPromise_def emit_def Let_def n)
  show "heap (snd (ajaxPromise rt p n (Failure (Response x)) w)) =
        (heap w)[a := ObjCell (put kvs ''status'' (Num (status x)))]"
    by (simp add: ajaxPromise_def emit_def Let_def n)
next
  assume "\<not> truthy (responseJSON x) \<and>
    contains (getAllResponseHeaders x) ''Content-Type: application/json'' \<and>
    JSON_parse rt (responseText x) (heap w) = Some (Ref b, h1) \<and> deref h1 b = Some (ObjCell kvs1)"
  then have n: "normalize rt (Response x) (heap w) =
      (Value (Ref b), h1[b := ObjCell (put kvs1 ''status'' (Num (status x)))])"
    by (simp add: normalize_def with_status_def attach_status_def)
  show "fst (ajaxPromise rt p n (Failure (Response x)) w) = Rejected (Value (Ref b))"
    by (simp add: ajaxPromise_def emit_def Let_def n)
  show "heap (snd (ajaxPromise rt p n (Failure (Response x)) w)) =
        h1[b := ObjCell (put kvs1 ''status'' (Num (status x)))]"
    by (simp add: ajaxPromise_def emit_def Let_def n)
next
  assume "\<not> truthy (responseJSON x) \<and>
    contains (getAllResponseHeaders x) ''Content-Type: application/json'' \<and>
    JSON_parse rt (responseText x) (heap w) = None"
  then have n: "normalize rt (Response x) (heap w) =
      (Value (Ref (length (heap w))), heap w @ [ObjCell [(''status'', Num (status x))]])"
    by (simp add: normalize_def with_status_def attach_status_def alloc_def deref_def)
  show "fst (ajaxPromise rt p n (Failure (Response x)) w) = Rejected (Value (Ref (length (heap w))))"
    by (simp add: ajaxPromise_def emit_def Let_def n)
  show "heap (snd (ajaxPromise rt p n (Failure (Response x)) w)) =
        heap w @ [ObjCell [(''status'', Num (status x))]]"
    by (simp add: ajaxPromise_def emit_def Let_def n)
next
  assume "\<not> truthy (responseJSON x) \<and>
    \<not> contains (getAllResponseHeaders x) ''Content-Type: application/json''"
  then have n: "normalize rt (Response x) (heap w) =
      (Value (Ref (length (heap w))), heap w @ [ObjCell [(''status'', Num (status x))]])"
    by (simp add: normalize_def with_status_def attach_status_def alloc_def deref_def)
  show "fst (ajaxPromise rt p n (Failure (Response x)) w) = Rejected (Value (Ref (length (heap w))))"
    by (simp add: ajaxPromise_def emit_def Let_def n)
  show "heap (snd (ajaxPromise rt p n (Failure (Response x)) w)) =
        heap w @ [ObjCell [(''status'', Num (status x))]]"
    by (simp add: ajaxPromise_def emit_def Let_def n)
next
  assume "v \<noteq> Undefined \<and> v \<noteq> Null"
  then have n: "normalize rt (Value v) (heap w) = (Value v, heap w)"
    by (cases v) (simp_all add: normalize_def)
  show "fst (ajaxPromise rt p n (Failure (Value v)) w) = Rejected (Value v)"
    by (simp add: ajaxPromise_def emit_def Let_def n)
  show "heap (snd (ajaxPromise rt p n (Failure (Value v)) w)) = heap w"
    by (simp add: ajaxPromise_def emit_def Let_def n)
qed

theorem ajax_error_normalization_witness:
  "responseJSON unprocessable = Ref 0 \<and>
   deref (heap unprocessable_world) 0 = Some (ObjCell [(''message'', Str ''bad'')]) \<and>
   fst (ajaxPromise plain_runtime get_params False (Failure (Response unprocessable)) unprocessable_world) =
     Rejected (Value (Ref 0)) \<and>
   heap (snd (ajaxPromise plain_runtime get_params False (Failure (Response unprocessable)) unprocessable_world)) =
     [ObjCell [(''message'', Str ''bad''), (''status'', Num 422)]] \<and>
   \<not> truthy (responseJSON unread) \<and>
   contains (getAllResponseHeaders unread) ''Content-Type: application/json'' \<and>
   JSON_parse plain_runtime (responseText unread) (heap empty_world) =
     Some (Ref 0, [ObjCell [(''message'', Str ''bad'')]]) \<and>
   fst (ajaxPromise plain_runtime get_params False (Failure (Response unread)) empty_world) =
     Rejected (Value (Ref 0)) \<and>
   heap (snd (ajaxPromise plain_runtime get_params False (Failure (Response unread)) empty_world)) =
     [ObjCell [(''message'', Str ''bad''), (''status'', Num 422)]] \<and>
   JSON_parse plain_runtime (responseText garbled) (heap empty_world) = None \<and>
   heap (snd (ajaxPromise plain_runtime get_params False (Failure (Response garbled)) empty_world)) =
     [ObjCell [(''status'', Num 502)]] \<and>
   \<not> contains (getAllResponseHeaders html_error) ''Content-Type: application/json'' \<and>
   heap (snd (ajaxPromise plain_runtime get_params False (Failure (Response html_error)) empty_world)) =
     [ObjCell [(''status'', Num 500)]] \<and>
   fst (ajaxPromise plain_runtime get_params False (Failure (Value (Str ''boom''))) empty_world) =
     Rejected (Value (Str ''boom''))"
  using ajax_error_normalization [where x = unprocessable and a = 0 and w = unprocessable_world
          and kvs = "[(''message'', Str ''bad'')]" and rt = plain_runtime and p = get_params and n = False
          and v = "Str ''boom''" and b = 0 and ?h1.0 = "[]" and ?kvs1.0 = "[]"]
        ajax_error_normalization [where x = unread and w = empty_world and b = 0
          and ?h1.0 = "[ObjCell [(''message'', Str ''bad'')]]" and ?kvs1.0 = "[(''message'', Str ''bad'')]"
          and rt = plain_runtime and p = get_params and n = False and v = "Str ''boom''" and a = 0 and kvs = "[]"]
        ajax_error_normalization [where x = garbled and w = empty_world and rt = plain_runtime
          and p = get_params and n = False and v = "Str ''boom''" and a = 0 and kvs = "[]" and b = 0
          and ?h1.0 = "[]" and ?kvs1.0 = "[]"]
        ajax_error_normalization [where x = html_error and w = empty_world and rt = plain_runtime
          and p = get_params and n = False and v = "Str ''boom''" and a = 0 and kvs = "[]" and b = 0
          and ?h1.0 = "[]" and ?kvs1.0 = "[]"]
  by (simp add: unprocessable_def unprocessable_world_def unread_def garbled_def html_error_def
        empty_world_def plain_runtime_def bad_text_def deref_def alloc_def)

text \<open>
  Claim C4 as stated fails: a failed response with an HTML body has no structured body,
  and the rejection is not the raw error but a new object holding the status.
\<close>

theorem ajax_error_not_raw_counterexample:
  "fst (ajaxPromise plain_runtime get_params False (Failure (Response html_error)) empty_world)
     \<noteq> Rejected (Response html_error) \<and>
   fst (ajaxPromise plain_runtime get_params False (Failure (Response html_error)) empty_world)
     = Rejected (Value (Ref 0)) \<and>
   heap (snd (ajaxPromise plain_runtime get_params False (Failure (Response html_error)) empty_world))
     = [ObjCell [(''status'', Num 500)]]"
  by (simp add: ajaxPromise_def emit_def Let_def normalize_def with_status_def attach_status_def
        alloc_def deref_def html_error_def empty_world_def)
















end
